theory Spec2Isabelle
  imports Main "HOL-Library.Word"
begin

unbundle bit_operations_syntax

section \<open>The Go standard library, as far as \<open>backend/internal/utils/csrf.go\<close> uses it\<close>

subsection \<open>Bytes, errors, instants\<close>

type_synonym byte = "8 word"

text \<open>Go's \<open>uint\<close>; every value computed below stays under \<open>2 ^ 24\<close>.\<close>

type_synonym uint = "64 word"

text \<open>
  A Go \<open>error\<close> value is identified with its message: \<open>errors_New msg\<close> is
  \<open>errors.New(msg)\<close>; a \<open>nil\<close> error is \<open>None\<close> of \<open>error option\<close>.
\<close>

datatype error = errors_New string

definition ErrNoCookie :: error where
  "ErrNoCookie = errors_New ''http: named cookie not present''"

text \<open>
  \<open>time.Time\<close> as the nanoseconds since the Unix epoch read from a wall clock that
  is not set before 1970, \<open>time.Duration\<close> as a number of nanoseconds.
\<close>

type_synonym Time = nat
type_synonym Duration = nat

definition Hour :: Duration where
  "Hour = 60 * 60 * 1000000000"

definition Add :: "Time \<Rightarrow> Duration \<Rightarrow> Time" where
  "Add t d = t + d"

subsection \<open>\<open>crypto/rand\<close>\<close>

text \<open>
  The state of the operating system's entropy source at one call of \<open>rand.Read\<close>:
  either the read fails with an error, or the source delivers bytes, the \<open>i\<close>-th
  byte delivered being \<open>f i\<close>. \<open>rand.Read(b)\<close> fills all of \<open>b\<close> or returns a
  non-nil error.
\<close>

datatype Reader = ReaderFails error | ReaderYields "nat \<Rightarrow> byte"

definition rand_Read :: "Reader \<Rightarrow> byte list \<Rightarrow> byte list \<times> error option" where
  "rand_Read rd b =
     (case rd of
        ReaderFails e \<Rightarrow> (b, Some e)
      | ReaderYields f \<Rightarrow> (map f [0..<length b], None))"

subsection \<open>\<open>encoding/base64\<close>, \<open>StdEncoding\<close>\<close>

definition encodeStd :: string where
  "encodeStd = ''ABCDEFGHIJKLMNOPQRSTUVWXYZabcdefghijklmnopqrstuvwxyz0123456789+/''"

definition padChar :: char where
  "padChar = CHR ''=''"

text \<open>\<open>enc.encode[v & 0x3F]\<close>.\<close>

definition encode :: "uint \<Rightarrow> char" where
  "encode v = encodeStd ! unat (v AND 0x3F)"

text \<open>
  \<open>Encoding.EncodeToString\<close>: three source bytes make four characters; a rest of one
  or two bytes makes two or three characters, padded to four.
\<close>

fun EncodeToString :: "byte list \<Rightarrow> string" where
  "EncodeToString (s0 # s1 # s2 # src) =
     (let val = push_bit 16 (ucast s0) OR push_bit 8 (ucast s1) OR ucast s2
      in [encode (drop_bit 18 val), encode (drop_bit 12 val),
          encode (drop_bit 6 val), encode val] @ EncodeToString src)"
| "EncodeToString [s0, s1] =
     (let val = push_bit 16 (ucast s0) OR push_bit 8 (ucast s1)
      in [encode (drop_bit 18 val), encode (drop_bit 12 val),
          encode (drop_bit 6 val), padChar])"
| "EncodeToString [s0] =
     (let val = push_bit 16 (ucast s0)
      in [encode (drop_bit 18 val), encode (drop_bit 12 val), padChar, padChar])"
| "EncodeToString [] = []"

text \<open>
  The decoding table: \<open>decodeMap[encoder[i]] = i\<close>, and \<open>0xFF\<close> for every byte
  outside the alphabet.
\<close>

fun indexByte :: "string \<Rightarrow> char \<Rightarrow> nat \<Rightarrow> nat option" where
  "indexByte [] c i = None"
| "indexByte (x # xs) c i = (if x = c then Some i else indexByte xs c (Suc i))"

definition decodeMap :: "char \<Rightarrow> byte" where
  "decodeMap c = (case indexByte encodeStd c 0 of None \<Rightarrow> 0xFF | Some i \<Rightarrow> of_nat i)"

text \<open>
  One quantum of four characters after another. Padding is accepted only as the
  third and fourth or as the fourth character of the last quantum; a character
  outside the alphabet, a short last quantum and anything after the padding are
  corrupt input (\<open>None\<close>).
\<close>

definition assemble :: "byte \<Rightarrow> byte \<Rightarrow> byte \<Rightarrow> byte \<Rightarrow> uint" where
  "assemble d0 d1 d2 d3 =
     push_bit 18 (ucast d0) OR push_bit 12 (ucast d1) OR push_bit 6 (ucast d2) OR ucast d3"

fun decodeQuanta :: "string \<Rightarrow> byte list option" where
  "decodeQuanta [] = Some []"
| "decodeQuanta (c0 # c1 # c2 # c3 # src) =
     (let d0 = decodeMap c0; d1 = decodeMap c1; d2 = decodeMap c2; d3 = decodeMap c3
      in if d0 = 0xFF \<or> d1 = 0xFF then None
         else if d2 = 0xFF then
           (if c2 = padChar \<and> c3 = padChar \<and> src = []
            then Some [ucast (drop_bit 16 (assemble d0 d1 0 0))] else None)
         else if d3 = 0xFF then
           (if c3 = padChar \<and> src = []
            then (let val = assemble d0 d1 d2 0
                  in Some [ucast (drop_bit 16 val), ucast (drop_bit 8 val)])
            else None)
         else
           (let val = assemble d0 d1 d2 d3
            in case decodeQuanta src of
                 None \<Rightarrow> None
               | Some dst \<Rightarrow>
                   Some (ucast (drop_bit 16 val) # ucast (drop_bit 8 val) # ucast val # dst)))"
| "decodeQuanta _ = None"

text \<open>\<open>Encoding.DecodeString\<close> skips carriage returns and line feeds wherever they stand.\<close>

definition DecodeString :: "string \<Rightarrow> byte list option" where
  "DecodeString s = decodeQuanta (filter (\<lambda>c. c \<noteq> CHR 0x0A \<and> c \<noteq> CHR 0x0D) s)"

subsection \<open>\<open>net/http\<close>: cookies, requests, responses\<close>

datatype SameSite = SameSiteDefaultMode | SameSiteLaxMode | SameSiteStrictMode | SameSiteNoneMode

text \<open>
  \<open>http.Cookie\<close>. \<open>Expires = None\<close> is the zero \<open>time.Time\<close> (no \<open>Expires\<close>
  attribute), \<open>MaxAge = 0\<close> means no \<open>Max-Age\<close> attribute.
\<close>

record Cookie =
  Name :: string
  Value :: string
  Path :: string
  Expires :: "Time option"
  MaxAge :: int
  HttpOnly :: bool
  Secure :: bool
  SameSite :: SameSite

text \<open>The token characters of RFC 7230, which a cookie name is made of.\<close>

definition tokenChars :: string where
  "tokenChars = ''!#$%&*+-.^_|~0123456789ABCDEFGHIJKLMNOPQRSTUVWXYZabcdefghijklmnopqrstuvwxyz''
                @ [CHR 0x27, CHR 0x60]"

definition isCookieNameValid :: "string \<Rightarrow> bool" where
  "isCookieNameValid raw = (raw \<noteq> [] \<and> list_all (\<lambda>c. c \<in> set tokenChars) raw)"

definition validCookieValueByte :: "char \<Rightarrow> bool" where
  "validCookieValueByte b =
     (0x20 \<le> (of_char b :: nat) \<and> (of_char b :: nat) < 0x7f
      \<and> b \<noteq> CHR 0x22 \<and> b \<noteq> CHR '';'' \<and> b \<noteq> CHR 0x5C)"

definition validCookiePathByte :: "char \<Rightarrow> bool" where
  "validCookiePathByte b =
     (0x20 \<le> (of_char b :: nat) \<and> (of_char b :: nat) < 0x7f \<and> b \<noteq> CHR '';'')"

text \<open>\<open>sanitizeOrWarn\<close> drops the bytes that are not valid.\<close>

definition sanitizeOrWarn :: "(char \<Rightarrow> bool) \<Rightarrow> string \<Rightarrow> string" where
  "sanitizeOrWarn valid v = filter valid v"

definition sanitizeCookieValue :: "string \<Rightarrow> string" where
  "sanitizeCookieValue v =
     (let v = sanitizeOrWarn validCookieValueByte v
      in if CHR '' '' \<in> set v \<or> CHR '','' \<in> set v then [CHR 0x22] @ v @ [CHR 0x22] else v)"

definition sanitizeCookiePath :: "string \<Rightarrow> string" where
  "sanitizeCookiePath v = sanitizeOrWarn validCookiePathByte v"

text \<open>
  The header of a response: its \<open>Set-Cookie\<close> lines in the order they were added,
  each line standing for the cookie it carries, and the other lines.
\<close>

record ResponseWriter =
  Set_Cookie :: "Cookie list"
  OtherHeaders :: "(string \<times> string) list"

text \<open>
  \<open>http.SetCookie\<close> adds one \<open>Set-Cookie\<close> line made by \<open>Cookie.String\<close>, which
  writes the value and the path sanitized, and nothing at all for an invalid name.
\<close>

definition SetCookie :: "ResponseWriter \<Rightarrow> Cookie \<Rightarrow> ResponseWriter" where
  "SetCookie w cookie =
     (if isCookieNameValid (Name cookie)
      then w\<lparr>Set_Cookie := Set_Cookie w @
             [cookie\<lparr>Value := sanitizeCookieValue (Value cookie),
                     Path := sanitizeCookiePath (Path cookie)\<rparr>]\<rparr>
      else w)"

text \<open>
  A request: the entries of its parsed form (\<open>url.Values\<close>, a map from a key to
  the values given for it, looked up with \<open>map_of\<close>) and the name-value pairs of its
  \<open>Cookie\<close> header in their order.
\<close>

record Request =
  Form :: "(string \<times> string list) list"
  Cookies :: "(string \<times> string) list"

text \<open>\<open>Request.FormValue\<close>: the first value given for the key, or the empty string.\<close>

definition FormValue :: "Request \<Rightarrow> string \<Rightarrow> string" where
  "FormValue r key = (case map_of (Form r) key of Some (v # vs) \<Rightarrow> v | _ \<Rightarrow> '''')"

text \<open>\<open>Request.Cookie\<close>: the first cookie of that name, or \<open>ErrNoCookie\<close>.\<close>

definition Request_Cookie :: "Request \<Rightarrow> string \<Rightarrow> error + Cookie" where
  "Request_Cookie r name =
     (if name = '''' then Inl ErrNoCookie
      else case find (\<lambda>c. fst c = name) (Cookies r) of
             None \<Rightarrow> Inl ErrNoCookie
           | Some c \<Rightarrow> Inr \<lparr>Name = fst c, Value = snd c, Path = '''', Expires = None,
                           MaxAge = 0, HttpOnly = False, Secure = False,
                           SameSite = SameSiteDefaultMode\<rparr>)"

section \<open>\<open>backend/internal/utils/csrf.go\<close>\<close>

text \<open>
  \<open>SetCSRFToken\<close>, with the entropy source and the clock (\<open>time.Now()\<close>) as
  arguments; it returns the response writer after the call, the token and the error.
\<close>

definition SetCSRFToken ::
  "Reader \<Rightarrow> Time \<Rightarrow> ResponseWriter \<Rightarrow> ResponseWriter \<times> string \<times> error option" where
  "SetCSRFToken rd now w =
     (let tokenBytes = replicate 32 (0::byte);
          (tokenBytes, err) = rand_Read rd tokenBytes
      in if err \<noteq> None then (w, '''', err)
         else
           (let token = EncodeToString tokenBytes;
                cookie = \<lparr>Name = ''csrf_token'', Value = token, Path = ''/'',
                          Expires = Some (Add now (24 * Hour)), MaxAge = 0,
                          HttpOnly = True, Secure = True, SameSite = SameSiteNoneMode\<rparr>
            in (SetCookie w cookie, token, None)))"

text \<open>\<open>ValidateCSRFToken\<close> compares the token of the form with the one of the cookie.\<close>

definition ValidateCSRFToken :: "Request \<Rightarrow> error option" where
  "ValidateCSRFToken r =
     (let formToken = FormValue r ''csrf_token''
      in if formToken = '''' then Some (errors_New ''csrf token not provided'')
         else case Request_Cookie r ''csrf_token'' of
                Inl err \<Rightarrow> Some (errors_New ''csrf token cookie not found'')
              | Inr cookie \<Rightarrow>
                  if formToken \<noteq> Value cookie then Some (errors_New ''invalid csrf token'')
                  else None)"

section \<open>The route table of \<open>main\<close>\<close>

text \<open>
  What \<open>main\<close> registers with \<open>http.Handle\<close> and \<open>http.HandleFunc\<close>: a path and
  the handler expression built for it. \<open>HandlerFunc f\<close> is the handler function named
  \<open>f\<close> (\<open>http.HandleFunc(p, f)\<close> registers \<open>http.HandlerFunc(f)\<close>), \<open>Authenticate h\<close> is
  \<open>middleware.Authenticate(dbConn, h)\<close> for the one database connection of \<open>main\<close>,
  \<open>AdminOnly h\<close> is \<open>middleware.AdminOnly(h)\<close> and \<open>CORS h\<close> is \<open>middleware.CORS(h)\<close>.
  The outermost constructor is the middleware a request meets first.
\<close>

datatype Handler = HandlerFunc string | Authenticate Handler | AdminOnly Handler | CORS Handler

text \<open>The registrations of the \<open>main\<close> that reads \<open>DATABASE_URL\<close>, in their order.\<close>

definition main_routes :: "(string \<times> Handler) list" where
  "main_routes =
     [(''/favicon.ico'', HandlerFunc ''http.NotFound''),
      (''/'', HandlerFunc ''adminHandler.Root''),
      (''/admin/register'', HandlerFunc ''adminHandler.Register''),
      (''/admin/login'', HandlerFunc ''adminHandler.Login''),
      (''/admin/logout'', Authenticate (HandlerFunc ''adminHandler.Logout'')),
      (''/admin/dashboard'', Authenticate (HandlerFunc ''adminHandler.Dashboard'')),
      (''/admin/dashboard/pending-farmers'', Authenticate (AdminOnly (HandlerFunc ''farmerHandler.ListPendingFarmers''))),
      (''/admin/dashboard/farmer-profile'', Authenticate (AdminOnly (HandlerFunc ''farmerHandler.ViewFarmerProfile''))),
      (''/admin/dashboard/approve-farmer'', Authenticate (AdminOnly (HandlerFunc ''farmerHandler.ApproveFarmer''))),
      (''/admin/dashboard/reject-farmer'', Authenticate (AdminOnly (HandlerFunc ''farmerHandler.RejectFarmer''))),
      (''/admin/users'', Authenticate (AdminOnly (HandlerFunc ''adminHandler.ListUsers''))),
      (''/admin/users/toggle-farmer-status'', Authenticate (AdminOnly (HandlerFunc ''farmerHandler.ToggleFarmerStatus''))),
      (''/admin/users/edit-farmer'', Authenticate (AdminOnly (HandlerFunc ''farmerHandler.EditFarmer''))),
      (''/admin/users/delete-farmer'', Authenticate (AdminOnly (HandlerFunc ''farmerHandler.DeleteFarmer''))),
      (''/admin/users/toggle-buyer-status'', Authenticate (AdminOnly (HandlerFunc ''buyerHandler.ToggleBuyerStatus''))),
      (''/admin/users/edit-buyer'', Authenticate (AdminOnly (HandlerFunc ''buyerHandler.EditBuyer''))),
      (''/admin/users/delete-buyer'', Authenticate (AdminOnly (HandlerFunc ''buyerHandler.DeleteBuyer''))),
      (''/buyer/register'', CORS (HandlerFunc ''buyerHandler.Register'')),
      (''/buyer/login'', CORS (HandlerFunc ''buyerHandler.Login'')),
      (''/buyer/logout'', CORS (Authenticate (HandlerFunc ''buyerHandler.Logout''))),
      (''/buyer/home'', CORS (Authenticate (HandlerFunc ''buyerHandler.Home''))),
      (''/buyer/product/'', CORS (HandlerFunc ''productHandler.GetProductDetails'')),
      (''/cart'', CORS (Authenticate (HandlerFunc ''cartHandler.GetCart''))),
      (''/cart/add'', CORS (Authenticate (HandlerFunc ''cartHandler.AddToCart''))),
      (''/cart/remove/'', CORS (Authenticate (HandlerFunc ''cartHandler.RemoveFromCart''))),
      (''/cart/update'', CORS (Authenticate (HandlerFunc ''cartHandler.UpdateCart''))),
      (''/checkout'', CORS (Authenticate (HandlerFunc ''cartHandler.Checkout''))),
      (''/farmer/register'', CORS (HandlerFunc ''farmerHandler.Register'')),
      (''/farmer/login'', CORS (HandlerFunc ''farmerHandler.Login'')),
      (''/farmer/logout'', CORS (Authenticate (HandlerFunc ''farmerHandler.Logout''))),
      (''/farmer/dashboard'', CORS (Authenticate (HandlerFunc ''farmerHandler.Dashboard''))),
      (''/farmer/product/add-product'', CORS (Authenticate (HandlerFunc ''farmerHandler.AddProduct''))),
      (''/farmer/product/list-products'', CORS (Authenticate (HandlerFunc ''farmerHandler.ListProducts''))),
      (''/farmer/product/edit-product'', CORS (Authenticate (HandlerFunc ''farmerHandler.EditProduct''))),
      (''/farmer/product/delete-product'', CORS (Authenticate (HandlerFunc ''farmerHandler.DeleteProduct'')))]"

text \<open>The registrations of the other \<open>main\<close> (fixed database address), in their order.\<close>

definition main_routes_part_000 :: "(string \<times> Handler) list" where
  "main_routes_part_000 =
     [(''/favicon.ico'', HandlerFunc ''http.NotFound''),
      (''/register'', HandlerFunc ''adminHandler.Register''),
      (''/login'', HandlerFunc ''adminHandler.Login''),
      (''/logout'', Authenticate (HandlerFunc ''adminHandler.Logout'')),
      (''/dashboard'', Authenticate (HandlerFunc ''adminHandler.Dashboard'')),
      (''/dashboard/pending-farmers'', Authenticate (AdminOnly (HandlerFunc ''farmerHandler.ListPendingFarmers''))),
      (''/dashboard/farmer-profile'', Authenticate (AdminOnly (HandlerFunc ''farmerHandler.ViewFarmerProfile''))),
      (''/dashboard/approve-farmer'', Authenticate (AdminOnly (HandlerFunc ''farmerHandler.ApproveFarmer''))),
      (''/dashboard/reject-farmer'', Authenticate (AdminOnly (HandlerFunc ''farmerHandler.RejectFarmer''))),
      (''/admin/users'', Authenticate (AdminOnly (HandlerFunc ''adminHandler.ListUsers''))),
      (''/admin/users/toggle-farmer-status'', Authenticate (AdminOnly (HandlerFunc ''farmerHandler.ToggleFarmerStatus''))),
      (''/admin/users/edit-farmer'', Authenticate (AdminOnly (HandlerFunc ''farmerHandler.EditFarmer''))),
      (''/admin/users/delete-farmer'', Authenticate (AdminOnly (HandlerFunc ''farmerHandler.DeleteFarmer''))),
      (''/admin/users/toggle-buyer-status'', Authenticate (AdminOnly (HandlerFunc ''buyerHandler.ToggleBuyerStatus''))),
      (''/admin/users/edit-buyer'', Authenticate (AdminOnly (HandlerFunc ''buyerHandler.EditBuyer''))),
      (''/admin/users/delete-buyer'', Authenticate (AdminOnly (HandlerFunc ''buyerHandler.DeleteBuyer''))),
      (''/buyer/register'', CORS (HandlerFunc ''buyerHandler.Register'')),
      (''/buyer/login'', CORS (HandlerFunc ''buyerHandler.Login'')),
      (''/buyer/logout'', CORS (Authenticate (HandlerFunc ''buyerHandler.Logout''))),
      (''/farmer/register'', CORS (HandlerFunc ''farmerHandler.Register'')),
      (''/farmer/login'', CORS (HandlerFunc ''farmerHandler.Login'')),
      (''/farmer/logout'', CORS (Authenticate (HandlerFunc ''farmerHandler.Logout'')))]"

text \<open>Whether a handler expression applies the role gate anywhere.\<close>

fun appliesAdminOnly :: "Handler \<Rightarrow> bool" where
  "appliesAdminOnly (HandlerFunc f) = False"
| "appliesAdminOnly (Authenticate h) = appliesAdminOnly h"
| "appliesAdminOnly (AdminOnly h) = True"
| "appliesAdminOnly (CORS h) = appliesAdminOnly h"

text \<open>
  \<open>roleAfterAuth authenticated h\<close>: on the way of a request through \<open>h\<close>, every
  \<open>AdminOnly\<close> is met after an \<open>Authenticate\<close>; \<open>authenticated\<close> tells whether one
  was met before \<open>h\<close>.
\<close>

fun roleAfterAuth :: "bool \<Rightarrow> Handler \<Rightarrow> bool" where
  "roleAfterAuth authenticated (HandlerFunc f) = True"
| "roleAfterAuth authenticated (Authenticate h) = roleAfterAuth True h"
| "roleAfterAuth authenticated (AdminOnly h) = (authenticated \<and> roleAfterAuth authenticated h)"
| "roleAfterAuth authenticated (CORS h) = roleAfterAuth authenticated h"

section \<open>The middleware package\<close>

text \<open>
  \<open>main\<close> calls the package \<open>backend/internal/middleware\<close>, whose source is missing.
  Its two middlewares are modelled from the specification.
\<close>

text \<open>
  Modelled from the spec: the Request Identity (section 3), a user identifier and a
  role, the role being one of admin, farmer and buyer.
\<close>

datatype Role = admin | farmer | buyer

record Identity =
  userID :: nat
  role :: Role

text \<open>
  Modelled from the spec: a request on its way through the chain, that is the request
  and the identity attached to its processing context, if any.
\<close>

record ChainRequest =
  request :: Request
  attached :: "Identity option"

text \<open>Modelled from the spec: an HTTP response, as far as the core looks at it.\<close>

record Response =
  StatusCode :: nat
  Body :: string

text \<open>
  Modelled from the spec: what a handler did with a request, that is the response, and
  the requests with which the domain handler at the end of the chain was invoked, in
  order (the call counter of section 8).
\<close>

record Outcome =
  response :: Response
  invoked :: "ChainRequest list"

text \<open>
  Modelled from the spec: the internal error of section 4.4, and a handler as a
  function from a request to that error or an outcome. A domain handler answers with
  \<open>f r\<close>; its invocation is recorded.
\<close>

datatype CoreError = IdentityNotPresent

type_synonym ChainHandler = "ChainRequest \<Rightarrow> CoreError + Outcome"

definition domainHandler :: "(ChainRequest \<Rightarrow> Response) \<Rightarrow> ChainHandler" where
  "domainHandler f r = Inr \<lparr>response = f r, invoked = [r]\<rparr>"

text \<open>
  Modelled from the spec: a response of the core itself, which terminates the chain
  with a status code and invokes no handler.
\<close>

definition terminate :: "nat \<Rightarrow> Outcome" where
  "terminate code = \<lparr>response = \<lparr>StatusCode = code, Body = ''''\<rparr>, invoked = []\<rparr>"

text \<open>
  Modelled from the spec: the Authentication Middleware (section 4.3), whose source
  (\<open>middleware.Authenticate\<close>) is missing. It extracts a session identifier from a
  named cookie; if absent, it responds with HTTP 401 and terminates the chain. If
  present, it calls the Session Store Adapter (\<open>Lookup\<close> of section 4.5, \<open>None\<close> for
  not-found and for expired); if that reports not-found or expired, HTTP 401. On
  success it attaches the resolved identity to the request's processing context and
  invokes the wrapped handler. The cookie's name and the adapter are external to the
  core and are arguments here.
\<close>

definition AuthenticationMiddleware ::
  "string \<Rightarrow> (string \<Rightarrow> Identity option) \<Rightarrow> ChainHandler \<Rightarrow> ChainHandler" where
  "AuthenticationMiddleware sessionCookie Lookup next r =
     (case Request_Cookie (request r) sessionCookie of
        Inl err \<Rightarrow> Inr (terminate 401)
      | Inr cookie \<Rightarrow>
          (case Lookup (Value cookie) of
             None \<Rightarrow> Inr (terminate 401)
           | Some identity \<Rightarrow> next (r\<lparr>attached := Some identity\<rparr>)))"

text \<open>
  Modelled from the spec: the Role Authorization Middleware (section 4.4), whose source
  (\<open>middleware.AdminOnly\<close>) is missing. It reads the identity attached by the
  Authentication Middleware and fails with the internal \<open>IdentityNotPresent\<close> error
  if there is none. Given a permitted-role set for the wrapped route, it compares the
  identity's role against that set; on mismatch it responds HTTP 403 and terminates
  the chain; on match it invokes the wrapped handler unchanged.
\<close>

definition RoleAuthorizationMiddleware :: "Role set \<Rightarrow> ChainHandler \<Rightarrow> ChainHandler" where
  "RoleAuthorizationMiddleware permitted next r =
     (case attached r of
        None \<Rightarrow> Inl IdentityNotPresent
      | Some identity \<Rightarrow>
          if role identity \<in> permitted then next r else Inr (terminate 403))"

section \<open>Auxiliary notions for the proofs\<close>

text \<open>The 24-bit group \<open>val\<close> that \<open>EncodeToString\<close> builds from three bytes.\<close>

definition pack :: "byte \<Rightarrow> byte \<Rightarrow> byte \<Rightarrow> uint" where
  "pack s0 s1 s2 = push_bit 16 (ucast s0) OR push_bit 8 (ucast s1) OR ucast s2"

section \<open>Properties of the base64 encoding\<close>

subsection \<open>The alphabet and its table\<close>

lemma decodeMap_table:
  "list_all (\<lambda>i. decodeMap (encodeStd ! i) = of_nat i) [0..<64]"
  by code_simp

lemma decodeMap_outside:
  "decodeMap padChar = 0xFF" "decodeMap (CHR 0x0A) = 0xFF" "decodeMap (CHR 0x0D) = 0xFF"
  by (simp_all add: decodeMap_def encodeStd_def padChar_def)

lemma length_encodeStd: "length encodeStd = 64"
  by (simp add: encodeStd_def)

lemma sextet_less: "unat ((v::uint) AND 0x3F) < 64"
proof -
  have "v AND 0x3F \<le> 0x3F" by (rule word_and_le1)
  then show ?thesis by (simp add: word_le_nat_alt)
qed

lemma encode_in_alphabet: "encode v \<in> set encodeStd"
  unfolding encode_def by (rule nth_mem) (simp add: length_encodeStd sextet_less)

lemma decodeMap_encode: "decodeMap (encode v) = ucast (v AND 0x3F)"
proof -
  have "unat (v AND 0x3F) \<in> set [0..<64]" using sextet_less [of v] by simp
  with decodeMap_table
  have "decodeMap (encodeStd ! unat (v AND 0x3F)) = of_nat (unat (v AND 0x3F))"
    unfolding list_all_iff by blast
  then show ?thesis by (simp add: encode_def)
qed

lemma sextet_mask: "(0x3F::uint) = mask 6"
  by (simp add: mask_eq_exp_minus_1)

lemma decodeMap_encode_valid: "decodeMap (encode v) \<noteq> 0xFF"
proof
  assume "decodeMap (encode v) = 0xFF"
  then have "bit (ucast (v AND 0x3F) :: byte) 7" by (simp add: decodeMap_encode)
  then show False unfolding sextet_mask by (simp add: bit_ucast_iff bit_and_iff bit_mask_iff)
qed

lemma encode_not_outside:
  "encode v \<noteq> padChar" "encode v \<noteq> CHR 0x0A" "encode v \<noteq> CHR 0x0D"
  using decodeMap_encode_valid [of v] decodeMap_outside by auto

lemma ucast_decodeMap_encode: "(ucast (decodeMap (encode v)) :: uint) = take_bit 6 v"
  unfolding decodeMap_encode sextet_mask
  by (rule bit_word_eqI) (auto simp add: bit_ucast_iff bit_and_iff bit_mask_iff bit_take_bit_iff)

subsection \<open>Four sextets make the three bytes again\<close>

lemma sextets_join:
  fixes val :: uint
  assumes "take_bit 24 val = val"
  shows "push_bit 18 (take_bit 6 (drop_bit 18 val)) OR push_bit 12 (take_bit 6 (drop_bit 12 val))
           OR push_bit 6 (take_bit 6 (drop_bit 6 val)) OR take_bit 6 val = val"
proof -
  have "push_bit 18 (take_bit 6 (drop_bit 18 val)) OR push_bit 12 (take_bit 6 (drop_bit 12 val))
           OR push_bit 6 (take_bit 6 (drop_bit 6 val)) OR take_bit 6 val = take_bit 24 val"
  proof (rule bit_word_eqI)
    fix n assume "n < LENGTH(64)"
    show "bit (push_bit 18 (take_bit 6 (drop_bit 18 val)) OR push_bit 12 (take_bit 6 (drop_bit 12 val))
           OR push_bit 6 (take_bit 6 (drop_bit 6 val)) OR take_bit 6 val) n = bit (take_bit 24 val) n"
      by (simp add: bit_or_iff bit_push_bit_iff bit_take_bit_iff bit_drop_bit_eq cong: conj_cong)
        linarith
  qed
  with assms show ?thesis by simp
qed

lemma bit_pack:
  "bit (pack s0 s1 s2) n \<longleftrightarrow>
     (16 \<le> n \<and> n < 24 \<and> bit s0 (n - 16)) \<or> (8 \<le> n \<and> n < 16 \<and> bit s1 (n - 8)) \<or> (n < 8 \<and> bit s2 n)"
  by (auto simp add: pack_def bit_or_iff bit_push_bit_iff bit_ucast_iff dest: bit_imp_le_length)

lemma take_bit_pack: "take_bit 24 (pack s0 s1 s2) = pack s0 s1 s2"
  by (rule bit_word_eqI) (auto simp add: bit_take_bit_iff bit_pack)

lemma pack_bytes:
  "ucast (drop_bit 16 (pack s0 s1 s2)) = s0"
  "ucast (drop_bit 8 (pack s0 s1 s2)) = s1"
  "ucast (pack s0 s1 s2) = s2"
  by (rule bit_word_eqI; auto simp add: bit_ucast_iff bit_drop_bit_eq bit_pack dest: bit_imp_le_length)+

lemma take_bit_pack_low: "take_bit 6 (pack s0 s1 0) = 0" "take_bit 6 (drop_bit 6 (pack s0 0 0)) = 0"
   "take_bit 6 (pack s0 0 0) = 0"
  by (rule bit_word_eqI; auto simp add: bit_take_bit_iff bit_drop_bit_eq bit_pack)+

lemma assemble_pack:
  "assemble (decodeMap (encode (drop_bit 18 (pack s0 s1 s2)))) (decodeMap (encode (drop_bit 12 (pack s0 s1 s2))))
     (decodeMap (encode (drop_bit 6 (pack s0 s1 s2)))) (decodeMap (encode (pack s0 s1 s2))) = pack s0 s1 s2"
  unfolding assemble_def ucast_decodeMap_encode
  by (rule sextets_join) (rule take_bit_pack)

lemma assemble_pack2:
  "assemble (decodeMap (encode (drop_bit 18 (pack s0 s1 0)))) (decodeMap (encode (drop_bit 12 (pack s0 s1 0))))
     (decodeMap (encode (drop_bit 6 (pack s0 s1 0)))) 0 = pack s0 s1 0"
  using sextets_join [OF take_bit_pack, of s0 s1 0]
  unfolding assemble_def ucast_decodeMap_encode by (simp add: take_bit_pack_low)

lemma assemble_pack1:
  "assemble (decodeMap (encode (drop_bit 18 (pack s0 0 0)))) (decodeMap (encode (drop_bit 12 (pack s0 0 0))))
     0 0 = pack s0 0 0"
  using sextets_join [OF take_bit_pack, of s0 0 0]
  unfolding assemble_def ucast_decodeMap_encode by (simp add: take_bit_pack_low)

lemma EncodeToString_pack:
  "EncodeToString (s0 # s1 # s2 # src) =
     encode (drop_bit 18 (pack s0 s1 s2)) # encode (drop_bit 12 (pack s0 s1 s2)) #
     encode (drop_bit 6 (pack s0 s1 s2)) # encode (pack s0 s1 s2) # EncodeToString src"
  "EncodeToString [s0, s1] =
     [encode (drop_bit 18 (pack s0 s1 0)), encode (drop_bit 12 (pack s0 s1 0)),
      encode (drop_bit 6 (pack s0 s1 0)), padChar]"
  "EncodeToString [s0] =
     [encode (drop_bit 18 (pack s0 0 0)), encode (drop_bit 12 (pack s0 0 0)), padChar, padChar]"
  by (simp_all add: pack_def Let_def)

lemma decodeQuanta_full:
  "decodeQuanta (encode (drop_bit 18 (pack s0 s1 s2)) # encode (drop_bit 12 (pack s0 s1 s2)) #
     encode (drop_bit 6 (pack s0 s1 s2)) # encode (pack s0 s1 s2) # cs) =
   (case decodeQuanta cs of None \<Rightarrow> None | Some dst \<Rightarrow> Some (s0 # s1 # s2 # dst))"
  by (simp add: Let_def decodeMap_encode_valid assemble_pack pack_bytes cong: option.case_cong)

lemma decodeQuanta_two:
  "decodeQuanta [encode (drop_bit 18 (pack s0 s1 0)), encode (drop_bit 12 (pack s0 s1 0)),
      encode (drop_bit 6 (pack s0 s1 0)), padChar] = Some [s0, s1]"
  by (simp add: Let_def decodeMap_encode_valid decodeMap_outside assemble_pack2 pack_bytes)

lemma decodeQuanta_one:
  "decodeQuanta [encode (drop_bit 18 (pack s0 0 0)), encode (drop_bit 12 (pack s0 0 0)),
      padChar, padChar] = Some [s0]"
  by (simp add: Let_def decodeMap_encode_valid decodeMap_outside assemble_pack1 pack_bytes)

lemma decodeQuanta_EncodeToString: "decodeQuanta (EncodeToString src) = Some src"
proof (induction src rule: EncodeToString.induct)
  case (1 s0 s1 s2 src)
  then show ?case by (simp only: EncodeToString_pack decodeQuanta_full option.case)
next
  case (2 s0 s1)
  show ?case by (simp only: EncodeToString_pack decodeQuanta_two)
next
  case (3 s0)
  show ?case by (simp only: EncodeToString_pack decodeQuanta_one)
next
  case 4
  show ?case by simp
qed

lemma set_EncodeToString: "set (EncodeToString src) \<subseteq> insert padChar (set encodeStd)"
proof (induction src rule: EncodeToString.induct)
  case (1 s0 s1 s2 src)
  then show ?case by (auto simp only: EncodeToString_pack list.set intro: encode_in_alphabet)
next
  case (2 s0 s1)
  show ?case by (auto simp only: EncodeToString_pack list.set intro: encode_in_alphabet)
next
  case (3 s0)
  show ?case by (auto simp only: EncodeToString_pack list.set intro: encode_in_alphabet)
next
  case 4
  show ?case by simp
qed

lemma length_EncodeToString: "length (EncodeToString src) = 4 * ((length src + 2) div 3)"
proof (induction src rule: EncodeToString.induct)
  case (1 s0 s1 s2 src)
  have "(length src + 3 + 2) div 3 = (length src + 2) div 3 + 1" by presburger
  with 1 show ?case by (simp add: Let_def)
qed (simp_all add: Let_def)

lemma alphabet_no_newline:
  "list_all (\<lambda>c. c \<noteq> CHR 0x0A \<and> c \<noteq> CHR 0x0D) (padChar # encodeStd)"
  by code_simp

lemma alphabet_cookie_value:
  "list_all (\<lambda>c. validCookieValueByte c \<and> c \<noteq> CHR '' '' \<and> c \<noteq> CHR '','') (padChar # encodeStd)"
  by code_simp

lemma csrf_cookie_name_valid: "isCookieNameValid ''csrf_token''"
  by code_simp

lemma sanitizeCookiePath_root: "sanitizeCookiePath ''/'' = ''/''"
  by code_simp

lemma DecodeString_EncodeToString: "DecodeString (EncodeToString src) = Some src"
proof -
  have "\<forall>c \<in> set (EncodeToString src). c \<noteq> CHR 0x0A \<and> c \<noteq> CHR 0x0D"
    using set_EncodeToString [of src] alphabet_no_newline
    unfolding list_all_iff by (metis list.set(2) subsetD)
  then have "filter (\<lambda>c. c \<noteq> CHR 0x0A \<and> c \<noteq> CHR 0x0D) (EncodeToString src) = EncodeToString src"
    by (intro filter_True) blast
  then show ?thesis by (simp add: DecodeString_def decodeQuanta_EncodeToString)
qed

lemma sanitizeCookieValue_EncodeToString:
  "sanitizeCookieValue (EncodeToString src) = EncodeToString src"
proof -
  have ok: "\<forall>c \<in> set (EncodeToString src). validCookieValueByte c \<and> c \<noteq> CHR '' '' \<and> c \<noteq> CHR '',''"
    using set_EncodeToString [of src] alphabet_cookie_value
    unfolding list_all_iff by (metis list.set(2) subsetD)
  then have "filter validCookieValueByte (EncodeToString src) = EncodeToString src"
    by (intro filter_True) blast
  moreover from ok have "CHR '' '' \<notin> set (EncodeToString src)" "CHR '','' \<notin> set (EncodeToString src)"
    by blast+
  ultimately show ?thesis
    by (simp add: sanitizeCookieValue_def sanitizeOrWarn_def Let_def)
qed

section \<open>Issuing a token\<close>

lemma rand_Read_cases:
  "rand_Read rd b = (b', None) \<Longrightarrow> length b' = length b"
  by (auto simp add: rand_Read_def split: Reader.splits)

lemma SetCSRFToken_failure:
  assumes "rand_Read rd (replicate 32 0) = (b, Some e)"
  shows "SetCSRFToken rd now w = (w, '''', Some e)"
  using assms by (simp add: SetCSRFToken_def)

lemma SetCookie_csrf:
  "SetCookie w \<lparr>Name = ''csrf_token'', Value = EncodeToString bs, Path = ''/'',
       Expires = ex, MaxAge = 0, HttpOnly = True, Secure = True, SameSite = SameSiteNoneMode\<rparr>
   = w\<lparr>Set_Cookie := Set_Cookie w @
        [\<lparr>Name = ''csrf_token'', Value = EncodeToString bs, Path = ''/'',
          Expires = ex, MaxAge = 0, HttpOnly = True, Secure = True,
          SameSite = SameSiteNoneMode\<rparr>]\<rparr>"
  by (simp add: SetCookie_def csrf_cookie_name_valid sanitizeCookieValue_EncodeToString
      sanitizeCookiePath_root)

lemma SetCSRFToken_success:
  assumes "rand_Read rd (replicate 32 0) = (bs, None)"
  shows "SetCSRFToken rd now w =
     (w\<lparr>Set_Cookie := Set_Cookie w @
        [\<lparr>Name = ''csrf_token'', Value = EncodeToString bs, Path = ''/'',
          Expires = Some (now + 86400000000000), MaxAge = 0, HttpOnly = True, Secure = True,
          SameSite = SameSiteNoneMode\<rparr>]\<rparr>, EncodeToString bs, None)"
  using assms by (simp add: SetCSRFToken_def Let_def SetCookie_csrf Add_def Hour_def)

lemma SetCSRFToken_None:
  assumes "SetCSRFToken rd now w = (w', token, None)"
  obtains bs where "rand_Read rd (replicate 32 0) = (bs, None)" "length bs = 32"
proof (cases "rand_Read rd (replicate 32 0)")
  case (Pair bs err)
  show ?thesis
  proof (cases err)
    case None
    with Pair have "rand_Read rd (replicate 32 0) = (bs, None)" by simp
    moreover from this have "length bs = 32" by (auto dest: rand_Read_cases)
    ultimately show ?thesis by (rule that)
  next
    case (Some e)
    with Pair assms show ?thesis by (simp add: SetCSRFToken_failure)
  qed
qed

text \<open>
  Claim C9. Issuing a token is atomic: if the read from the random source fails,
  \<open>SetCSRFToken\<close> returns the empty token together with that error and the
  response writer as it was, so no cookie is set and no header is touched.
\<close>
theorem SetCSRFToken_atomic:
  "rand_Read rd (replicate 32 0) = (b, Some e) \<Longrightarrow>
     SetCSRFToken rd now w = (w, '''', Some e)"
  by (rule SetCSRFToken_failure)

theorem SetCSRFToken_atomic_witness:
  "rand_Read (ReaderFails (errors_New ''entropy source unavailable'')) (replicate 32 0)
     = (replicate 32 0, Some (errors_New ''entropy source unavailable''))
   \<and> SetCSRFToken (ReaderFails (errors_New ''entropy source unavailable'')) 1700000000000000000
         \<lparr>Set_Cookie = [], OtherHeaders = [(''Cache-Control'', ''no-store'')]\<rparr>
       = (\<lparr>Set_Cookie = [], OtherHeaders = [(''Cache-Control'', ''no-store'')]\<rparr>, '''',
          Some (errors_New ''entropy source unavailable''))"
proof -
  have h: "rand_Read (ReaderFails (errors_New ''entropy source unavailable'')) (replicate 32 0)
     = (replicate 32 0, Some (errors_New ''entropy source unavailable''))"
    by (simp add: rand_Read_def)
  from SetCSRFToken_atomic [OF h] h show ?thesis by simp
qed

text \<open>
  Claim C4. Whenever \<open>SetCSRFToken\<close> returns without an error, the token is the
  standard base64 text of the 32 bytes that \<open>rand.Read\<close> delivered, and decoding
  the token gives exactly these 32 bytes back. Whenever the read from the random
  source fails, \<open>SetCSRFToken\<close> returns the source's error and the empty token:
  there is no other source of bytes.
\<close>
theorem SetCSRFToken_token:
  "(SetCSRFToken rd now w = (w', token, None) \<longrightarrow>
      (\<exists>bs. rand_Read rd (replicate 32 0) = (bs, None) \<and> length bs = 32
          \<and> token = EncodeToString bs \<and> DecodeString token = Some bs))
   \<and> (rand_Read rd (replicate 32 0) = (b, Some e) \<longrightarrow>
      snd (SetCSRFToken rd now w) = ('''', Some e))"
proof (intro conjI impI)
  assume ok: "SetCSRFToken rd now w = (w', token, None)"
  then obtain bs where bs: "rand_Read rd (replicate 32 0) = (bs, None)" "length bs = 32"
    by (rule SetCSRFToken_None)
  from ok have "token = EncodeToString bs"
    by (simp add: SetCSRFToken_success [OF bs(1)])
  with bs show "\<exists>bs. rand_Read rd (replicate 32 0) = (bs, None) \<and> length bs = 32
          \<and> token = EncodeToString bs \<and> DecodeString token = Some bs"
    by (auto simp add: DecodeString_EncodeToString)
next
  assume "rand_Read rd (replicate 32 0) = (b, Some e)"
  then show "snd (SetCSRFToken rd now w) = ('''', Some e)"
    by (simp add: SetCSRFToken_failure)
qed

lemma rand_example:
  "rand_Read (ReaderYields of_nat) (replicate 32 0) = (map of_nat [0..<32], None)"
  by (simp add: rand_Read_def)

lemma encode_example:
  "EncodeToString (map of_nat [0..<32]) = ''AAECAwQFBgcICQoLDA0ODxAREhMUFRYXGBkaGxwdHh8=''"
  by code_simp

theorem SetCSRFToken_token_witness:
  "SetCSRFToken (ReaderYields of_nat) 1700000000000000000 \<lparr>Set_Cookie = [], OtherHeaders = []\<rparr>
     = (\<lparr>Set_Cookie = [\<lparr>Name = ''csrf_token'',
            Value = ''AAECAwQFBgcICQoLDA0ODxAREhMUFRYXGBkaGxwdHh8='', Path = ''/'',
            Expires = Some 1700086400000000000, MaxAge = 0, HttpOnly = True, Secure = True,
            SameSite = SameSiteNoneMode\<rparr>], OtherHeaders = []\<rparr>,
        ''AAECAwQFBgcICQoLDA0ODxAREhMUFRYXGBkaGxwdHh8='', None)
   \<and> DecodeString ''AAECAwQFBgcICQoLDA0ODxAREhMUFRYXGBkaGxwdHh8='' = Some (map of_nat [0..<32])
   \<and> length (map of_nat [0..<32] :: byte list) = 32
   \<and> rand_Read (ReaderFails (errors_New ''entropy source unavailable'')) (replicate 32 0)
        = (replicate 32 0, Some (errors_New ''entropy source unavailable''))
   \<and> snd (SetCSRFToken (ReaderFails (errors_New ''entropy source unavailable''))
          1700000000000000000 \<lparr>Set_Cookie = [], OtherHeaders = []\<rparr>)
        = ('''', Some (errors_New ''entropy source unavailable''))"
proof -
  let ?w = "\<lparr>Set_Cookie = [], OtherHeaders = []\<rparr>"
  let ?e = "errors_New ''entropy source unavailable''"
  have issue: "SetCSRFToken (ReaderYields of_nat) 1700000000000000000 ?w
     = (\<lparr>Set_Cookie = [\<lparr>Name = ''csrf_token'',
            Value = ''AAECAwQFBgcICQoLDA0ODxAREhMUFRYXGBkaGxwdHh8='', Path = ''/'',
            Expires = Some 1700086400000000000, MaxAge = 0, HttpOnly = True, Secure = True,
            SameSite = SameSiteNoneMode\<rparr>], OtherHeaders = []\<rparr>,
        ''AAECAwQFBgcICQoLDA0ODxAREhMUFRYXGBkaGxwdHh8='', None)"
    by (simp add: SetCSRFToken_success [OF rand_example] encode_example)
  have fails: "rand_Read (ReaderFails ?e) (replicate 32 0) = (replicate 32 0, Some ?e)"
    by (simp add: rand_Read_def)
  from SetCSRFToken_token [of "ReaderYields of_nat" 1700000000000000000 ?w
      "\<lparr>Set_Cookie = [\<lparr>Name = ''csrf_token'',
            Value = ''AAECAwQFBgcICQoLDA0ODxAREhMUFRYXGBkaGxwdHh8='', Path = ''/'',
            Expires = Some 1700086400000000000, MaxAge = 0, HttpOnly = True, Secure = True,
            SameSite = SameSiteNoneMode\<rparr>], OtherHeaders = []\<rparr>"
      "''AAECAwQFBgcICQoLDA0ODxAREhMUFRYXGBkaGxwdHh8=''" "[]" ?e] issue
  have "\<exists>bs. rand_Read (ReaderYields of_nat) (replicate 32 0) = (bs, None)
          \<and> DecodeString ''AAECAwQFBgcICQoLDA0ODxAREhMUFRYXGBkaGxwdHh8='' = Some bs"
    by blast
  then have "DecodeString ''AAECAwQFBgcICQoLDA0ODxAREhMUFRYXGBkaGxwdHh8=''
      = Some (map of_nat [0..<32])"
    unfolding rand_example by blast
  moreover from SetCSRFToken_token [of "ReaderFails ?e" 1700000000000000000 ?w ?w "''''"
      "replicate 32 0" ?e] fails
  have "snd (SetCSRFToken (ReaderFails ?e) 1700000000000000000 ?w) = ('''', Some ?e)"
    by blast
  ultimately show ?thesis using issue fails by simp
qed

text \<open>
  Claim C5. On success \<open>SetCSRFToken\<close> adds exactly one \<open>Set-Cookie\<close> line to
  the response and leaves the rest of the header alone: the cookie is named
  \<open>csrf_token\<close>, has path \<open>/\<close>, is \<open>HttpOnly\<close> and \<open>Secure\<close>, has the
  cross-site \<open>SameSite=None\<close> policy, expires 24 hours after the call, and its value
  is the token returned to the caller.
\<close>
theorem SetCSRFToken_cookie:
  "SetCSRFToken rd now w = (w', token, None) \<Longrightarrow>
     Set_Cookie w' = Set_Cookie w @
       [\<lparr>Name = ''csrf_token'', Value = token, Path = ''/'',
         Expires = Some (now + 24 * 60 * 60 * 1000000000), MaxAge = 0,
         HttpOnly = True, Secure = True, SameSite = SameSiteNoneMode\<rparr>]
     \<and> OtherHeaders w' = OtherHeaders w"
proof -
  assume ok: "SetCSRFToken rd now w = (w', token, None)"
  then obtain bs where bs: "rand_Read rd (replicate 32 0) = (bs, None)"
    by (rule SetCSRFToken_None)
  from ok show ?thesis
    unfolding SetCSRFToken_success [OF bs] by auto
qed

theorem SetCSRFToken_cookie_witness:
  "SetCSRFToken (ReaderYields (\<lambda>i. 255 - of_nat i)) 1700000000000000000
       \<lparr>Set_Cookie = [], OtherHeaders = [(''Cache-Control'', ''no-store'')]\<rparr>
     = (\<lparr>Set_Cookie = [\<lparr>Name = ''csrf_token'',
            Value = ''//79/Pv6+fj39vX08/Lx8O/u7ezr6uno5+bl5OPi4eA='', Path = ''/'',
            Expires = Some 1700086400000000000, MaxAge = 0, HttpOnly = True, Secure = True,
            SameSite = SameSiteNoneMode\<rparr>], OtherHeaders = [(''Cache-Control'', ''no-store'')]\<rparr>,
        ''//79/Pv6+fj39vX08/Lx8O/u7ezr6uno5+bl5OPi4eA='', None)
   \<and> Set_Cookie \<lparr>Set_Cookie = [\<lparr>Name = ''csrf_token'',
            Value = ''//79/Pv6+fj39vX08/Lx8O/u7ezr6uno5+bl5OPi4eA='', Path = ''/'',
            Expires = Some 1700086400000000000, MaxAge = 0, HttpOnly = True, Secure = True,
            SameSite = SameSiteNoneMode\<rparr>], OtherHeaders = [(''Cache-Control'', ''no-store'')]\<rparr>
       = [] @ [\<lparr>Name = ''csrf_token'',
            Value = ''//79/Pv6+fj39vX08/Lx8O/u7ezr6uno5+bl5OPi4eA='', Path = ''/'',
            Expires = Some (1700000000000000000 + 24 * 60 * 60 * 1000000000), MaxAge = 0,
            HttpOnly = True, Secure = True, SameSite = SameSiteNoneMode\<rparr>]"
proof -
  let ?w = "\<lparr>Set_Cookie = [], OtherHeaders = [(''Cache-Control'', ''no-store'')]\<rparr>"
  have rd: "rand_Read (ReaderYields (\<lambda>i. 255 - of_nat i)) (replicate 32 0)
       = (map (\<lambda>i. 255 - of_nat i) [0..<32], None)"
    by (simp add: rand_Read_def)
  have enc: "EncodeToString (map (\<lambda>i. 255 - of_nat i) [0..<32])
       = ''//79/Pv6+fj39vX08/Lx8O/u7ezr6uno5+bl5OPi4eA=''"
    by code_simp
  have issue: "SetCSRFToken (ReaderYields (\<lambda>i. 255 - of_nat i)) 1700000000000000000 ?w
     = (\<lparr>Set_Cookie = [\<lparr>Name = ''csrf_token'',
            Value = ''//79/Pv6+fj39vX08/Lx8O/u7ezr6uno5+bl5OPi4eA='', Path = ''/'',
            Expires = Some 1700086400000000000, MaxAge = 0, HttpOnly = True, Secure = True,
            SameSite = SameSiteNoneMode\<rparr>], OtherHeaders = [(''Cache-Control'', ''no-store'')]\<rparr>,
        ''//79/Pv6+fj39vX08/Lx8O/u7ezr6uno5+bl5OPi4eA='', None)"
    by (simp add: SetCSRFToken_success [OF rd] enc)
  from SetCSRFToken_cookie [OF issue] issue show ?thesis by simp
qed

section \<open>Validating a token\<close>

lemma FormValue_empty_iff:
  "FormValue r key = '''' \<longleftrightarrow>
     map_of (Form r) key = None \<or> map_of (Form r) key = Some []
     \<or> (\<exists>vs. map_of (Form r) key = Some ('''' # vs))"
  by (auto simp add: FormValue_def split: option.splits list.splits)

lemma validate_no_field:
  "FormValue r ''csrf_token'' = '''' \<Longrightarrow>
     ValidateCSRFToken r = Some (errors_New ''csrf token not provided'')"
  by (simp add: ValidateCSRFToken_def)

lemma validate_no_cookie:
  "FormValue r ''csrf_token'' \<noteq> '''' \<Longrightarrow> Request_Cookie r ''csrf_token'' = Inl e \<Longrightarrow>
     ValidateCSRFToken r = Some (errors_New ''csrf token cookie not found'')"
  by (simp add: ValidateCSRFToken_def)

lemma validate_differ:
  "FormValue r ''csrf_token'' \<noteq> '''' \<Longrightarrow> Request_Cookie r ''csrf_token'' = Inr c \<Longrightarrow>
     Value c \<noteq> FormValue r ''csrf_token'' \<Longrightarrow>
     ValidateCSRFToken r = Some (errors_New ''invalid csrf token'')"
  by (auto simp add: ValidateCSRFToken_def)

lemma validate_equal:
  "FormValue r ''csrf_token'' \<noteq> '''' \<Longrightarrow> Request_Cookie r ''csrf_token'' = Inr c \<Longrightarrow>
     Value c = FormValue r ''csrf_token'' \<Longrightarrow> ValidateCSRFToken r = None"
  by (simp add: ValidateCSRFToken_def)

lemma token_not_empty:
  assumes "SetCSRFToken rd now w = (w', token, None)"
  shows "length token = 44"
proof -
  from assms obtain bs where bs: "rand_Read rd (replicate 32 0) = (bs, None)" "length bs = 32"
    by (rule SetCSRFToken_None)
  from assms have "token = EncodeToString bs"
    by (simp add: SetCSRFToken_success [OF bs(1)])
  with bs(2) show ?thesis by (simp add: length_EncodeToString)
qed

text \<open>
  Claim C1. Round trip: for every call of \<open>SetCSRFToken\<close> that succeeds with token
  \<open>t\<close>, a request whose form field \<open>csrf_token\<close> and whose cookie \<open>csrf_token\<close>
  both equal \<open>t\<close> passes \<open>ValidateCSRFToken\<close>. And every request in which the
  form field and the cookie are both present and non-empty but differ fails with the
  mismatch error \<open>invalid csrf token\<close>.
\<close>
theorem csrf_round_trip:
  "(SetCSRFToken rd now w = (w', t, None) \<and> FormValue r ''csrf_token'' = t
      \<and> Request_Cookie r ''csrf_token'' = Inr c \<and> Value c = t
      \<longrightarrow> ValidateCSRFToken r = None)
   \<and> (FormValue r' ''csrf_token'' \<noteq> '''' \<and> Request_Cookie r' ''csrf_token'' = Inr c'
      \<and> Value c' \<noteq> '''' \<and> Value c' \<noteq> FormValue r' ''csrf_token''
      \<longrightarrow> ValidateCSRFToken r' = Some (errors_New ''invalid csrf token''))"
proof (intro conjI impI)
  assume h: "SetCSRFToken rd now w = (w', t, None) \<and> FormValue r ''csrf_token'' = t
      \<and> Request_Cookie r ''csrf_token'' = Inr c \<and> Value c = t"
  then have "length t = 44" by (blast dest: token_not_empty)
  then have "t \<noteq> ''''" by auto
  with h show "ValidateCSRFToken r = None"
    by (intro validate_equal [of r c]) simp_all
next
  assume "FormValue r' ''csrf_token'' \<noteq> '''' \<and> Request_Cookie r' ''csrf_token'' = Inr c'
      \<and> Value c' \<noteq> '''' \<and> Value c' \<noteq> FormValue r' ''csrf_token''"
  then show "ValidateCSRFToken r' = Some (errors_New ''invalid csrf token'')"
    by (intro validate_differ [of r' c']) simp_all
qed

lemma issue_example:
  "SetCSRFToken (ReaderYields of_nat) 1700000000000000000 \<lparr>Set_Cookie = [], OtherHeaders = []\<rparr>
     = (\<lparr>Set_Cookie = [\<lparr>Name = ''csrf_token'',
            Value = ''AAECAwQFBgcICQoLDA0ODxAREhMUFRYXGBkaGxwdHh8='', Path = ''/'',
            Expires = Some 1700086400000000000, MaxAge = 0, HttpOnly = True, Secure = True,
            SameSite = SameSiteNoneMode\<rparr>], OtherHeaders = []\<rparr>,
        ''AAECAwQFBgcICQoLDA0ODxAREhMUFRYXGBkaGxwdHh8='', None)"
  by (simp add: SetCSRFToken_success [OF rand_example] encode_example)

theorem csrf_round_trip_witness:
  "ValidateCSRFToken
     \<lparr>Form = [(''csrf_token'', [''AAECAwQFBgcICQoLDA0ODxAREhMUFRYXGBkaGxwdHh8=''])],
      Cookies = [(''csrf_token'', ''AAECAwQFBgcICQoLDA0ODxAREhMUFRYXGBkaGxwdHh8='')]\<rparr> = None
   \<and> ValidateCSRFToken
     \<lparr>Form = [(''csrf_token'', [''AAECAwQFBgcICQoLDA0ODxAREhMUFRYXGBkaGxwdHh8=''])],
      Cookies = [(''csrf_token'', ''AAECAwQFBgcICQoLDA0ODxAREhMUFRYXGBkaGxwdHh9='')]\<rparr>
     = Some (errors_New ''invalid csrf token'')"
proof -
  let ?t = "''AAECAwQFBgcICQoLDA0ODxAREhMUFRYXGBkaGxwdHh8=''"
  let ?u = "''AAECAwQFBgcICQoLDA0ODxAREhMUFRYXGBkaGxwdHh9=''"
  let ?r = "\<lparr>Form = [(''csrf_token'', [?t])], Cookies = [(''csrf_token'', ?t)]\<rparr>"
  let ?r' = "\<lparr>Form = [(''csrf_token'', [?t])], Cookies = [(''csrf_token'', ?u)]\<rparr>"
  let ?c = "\<lambda>v. \<lparr>Name = ''csrf_token'', Value = v, Path = '''', Expires = None,
      MaxAge = 0, HttpOnly = False, Secure = False, SameSite = SameSiteDefaultMode\<rparr>"
  have form: "FormValue ?r ''csrf_token'' = ?t" "FormValue ?r' ''csrf_token'' = ?t"
    by (simp_all add: FormValue_def)
  have cookie: "Request_Cookie ?r ''csrf_token'' = Inr (?c ?t)"
      "Request_Cookie ?r' ''csrf_token'' = Inr (?c ?u)"
    by (simp_all add: Request_Cookie_def)
  have differ: "?u \<noteq> ?t" by simp
  from csrf_round_trip [of "ReaderYields of_nat" 1700000000000000000
      "\<lparr>Set_Cookie = [], OtherHeaders = []\<rparr>"
      "\<lparr>Set_Cookie = [\<lparr>Name = ''csrf_token'',
            Value = ''AAECAwQFBgcICQoLDA0ODxAREhMUFRYXGBkaGxwdHh8='', Path = ''/'',
            Expires = Some 1700086400000000000, MaxAge = 0, HttpOnly = True, Secure = True,
            SameSite = SameSiteNoneMode\<rparr>], OtherHeaders = []\<rparr>"
      ?t ?r "?c ?t" ?r' "?c ?u"]
    issue_example form cookie differ
  show ?thesis by simp
qed

text \<open>
  Claim C2 says that validation fails with the missing-cookie error whenever the cookie
  \<open>csrf_token\<close> is absent. For a request with neither form field nor cookie the
  cookie is absent, yet the failure is the missing-field error.
\<close>
theorem ValidateCSRFToken_missing_cookie_counterexample:
  "Request_Cookie \<lparr>Form = [], Cookies = []\<rparr> ''csrf_token'' = Inl ErrNoCookie
   \<and> ValidateCSRFToken \<lparr>Form = [], Cookies = []\<rparr> = Some (errors_New ''csrf token not provided'')
   \<and> ValidateCSRFToken \<lparr>Form = [], Cookies = []\<rparr> \<noteq> Some (errors_New ''csrf token cookie not found'')"
  by (simp add: Request_Cookie_def ValidateCSRFToken_def FormValue_def)

text \<open>
  Claim C2, amended. \<open>ValidateCSRFToken\<close> fails with the missing-field error
  (\<open>csrf token not provided\<close>) if the form field \<open>csrf_token\<close> is absent or empty;
  if the form field is non-empty, it fails with the missing-cookie error
  (\<open>csrf token cookie not found\<close>) if the cookie \<open>csrf_token\<close> is absent, fails with
  the mismatch error (\<open>invalid csrf token\<close>) if the cookie is present and its value
  differs from the form field, and otherwise succeeds, returning no error.
\<close>
theorem ValidateCSRFToken_cases:
  "(FormValue r ''csrf_token'' = '''' \<longrightarrow>
      ValidateCSRFToken r = Some (errors_New ''csrf token not provided''))
   \<and> (FormValue r ''csrf_token'' \<noteq> '''' \<and> Request_Cookie r ''csrf_token'' = Inl e \<longrightarrow>
      ValidateCSRFToken r = Some (errors_New ''csrf token cookie not found''))
   \<and> (FormValue r ''csrf_token'' \<noteq> '''' \<and> Request_Cookie r ''csrf_token'' = Inr c
        \<and> Value c \<noteq> FormValue r ''csrf_token'' \<longrightarrow>
      ValidateCSRFToken r = Some (errors_New ''invalid csrf token''))
   \<and> (FormValue r ''csrf_token'' \<noteq> '''' \<and> Request_Cookie r ''csrf_token'' = Inr c
        \<and> Value c = FormValue r ''csrf_token'' \<longrightarrow>
      ValidateCSRFToken r = None)"
  by (simp add: validate_no_field validate_no_cookie
      validate_differ validate_equal)

theorem ValidateCSRFToken_cases_witness:
  "ValidateCSRFToken \<lparr>Form = [(''csrf_token'', [''''])], Cookies = [(''csrf_token'', ''abc'')]\<rparr>
     = Some (errors_New ''csrf token not provided'')
   \<and> ValidateCSRFToken \<lparr>Form = [(''csrf_token'', [''abc''])], Cookies = [(''session'', ''s1'')]\<rparr>
     = Some (errors_New ''csrf token cookie not found'')
   \<and> ValidateCSRFToken \<lparr>Form = [(''csrf_token'', [''xyz''])], Cookies = [(''csrf_token'', ''abc'')]\<rparr>
     = Some (errors_New ''invalid csrf token'')
   \<and> ValidateCSRFToken \<lparr>Form = [(''csrf_token'', [''abc''])], Cookies = [(''csrf_token'', ''abc'')]\<rparr>
     = None"
proof -
  let ?c = "\<lparr>Name = ''csrf_token'', Value = ''abc'', Path = '''', Expires = None,
      MaxAge = 0, HttpOnly = False, Secure = False, SameSite = SameSiteDefaultMode\<rparr>"
  let ?r1 = "\<lparr>Form = [(''csrf_token'', [''''])], Cookies = [(''csrf_token'', ''abc'')]\<rparr>"
  let ?r2 = "\<lparr>Form = [(''csrf_token'', [''abc''])], Cookies = [(''session'', ''s1'')]\<rparr>"
  let ?r3 = "\<lparr>Form = [(''csrf_token'', [''xyz''])], Cookies = [(''csrf_token'', ''abc'')]\<rparr>"
  let ?r4 = "\<lparr>Form = [(''csrf_token'', [''abc''])], Cookies = [(''csrf_token'', ''abc'')]\<rparr>"
  have f: "FormValue ?r1 ''csrf_token'' = ''''" "FormValue ?r2 ''csrf_token'' = ''abc''"
      "FormValue ?r3 ''csrf_token'' = ''xyz''" "FormValue ?r4 ''csrf_token'' = ''abc''"
    by (simp_all add: FormValue_def)
  have c: "Request_Cookie ?r2 ''csrf_token'' = Inl ErrNoCookie"
      "Request_Cookie ?r3 ''csrf_token'' = Inr ?c" "Request_Cookie ?r4 ''csrf_token'' = Inr ?c"
    by (simp_all add: Request_Cookie_def)
  from ValidateCSRFToken_cases [of ?r1 ErrNoCookie ?c] f(1)
  have "ValidateCSRFToken ?r1 = Some (errors_New ''csrf token not provided'')" by blast
  moreover from ValidateCSRFToken_cases [of ?r2 ErrNoCookie ?c] f(2) c(1)
  have "ValidateCSRFToken ?r2 = Some (errors_New ''csrf token cookie not found'')" by simp
  moreover from ValidateCSRFToken_cases [of ?r3 ErrNoCookie ?c] f(3) c(2)
  have "ValidateCSRFToken ?r3 = Some (errors_New ''invalid csrf token'')" by simp
  moreover from ValidateCSRFToken_cases [of ?r4 ErrNoCookie ?c] f(4) c(3)
  have "ValidateCSRFToken ?r4 = None" by simp
  ultimately show ?thesis by blast
qed

text \<open>
  Claim C10. The form field is checked before the cookie: for every request in which
  both the form field \<open>csrf_token\<close> and the cookie \<open>csrf_token\<close> are absent, the
  failure reported is the missing-field error \<open>csrf token not provided\<close>, not the
  missing-cookie error.
\<close>
theorem ValidateCSRFToken_field_first:
  "map_of (Form r) ''csrf_token'' = None \<Longrightarrow> Request_Cookie r ''csrf_token'' = Inl ErrNoCookie \<Longrightarrow>
     ValidateCSRFToken r = Some (errors_New ''csrf token not provided'')
     \<and> ValidateCSRFToken r \<noteq> Some (errors_New ''csrf token cookie not found'')"
  by (simp add: ValidateCSRFToken_def FormValue_def)

theorem ValidateCSRFToken_field_first_witness:
  "map_of (Form \<lparr>Form = [(''name'', [''Aigerim''])], Cookies = [(''session'', ''s1'')]\<rparr>)
       ''csrf_token'' = None
   \<and> Request_Cookie \<lparr>Form = [(''name'', [''Aigerim''])], Cookies = [(''session'', ''s1'')]\<rparr>
       ''csrf_token'' = Inl ErrNoCookie
   \<and> ValidateCSRFToken \<lparr>Form = [(''name'', [''Aigerim''])], Cookies = [(''session'', ''s1'')]\<rparr>
       = Some (errors_New ''csrf token not provided'')"
proof -
  let ?r = "\<lparr>Form = [(''name'', [''Aigerim''])], Cookies = [(''session'', ''s1'')]\<rparr>"
  have a: "map_of (Form ?r) ''csrf_token'' = None" by simp
  have b: "Request_Cookie ?r ''csrf_token'' = Inl ErrNoCookie" by (simp add: Request_Cookie_def)
  from ValidateCSRFToken_field_first [OF a b] a b show ?thesis by blast
qed

section \<open>Routes and middleware\<close>

text \<open>
  Claim C3. In the route table of either \<open>main\<close>, every handler expression meets
  each \<open>AdminOnly\<close> only after an \<open>Authenticate\<close>: the role gate is always wrapped
  inside the authentication middleware. Eleven routes of each table apply the gate.
\<close>
theorem routes_role_after_authentication:
  "list_all (\<lambda>route. roleAfterAuth False (snd route)) main_routes
   \<and> length (filter (\<lambda>route. appliesAdminOnly (snd route)) main_routes) = 11
   \<and> list_all (\<lambda>route. roleAfterAuth False (snd route)) main_routes_part_000
   \<and> length (filter (\<lambda>route. appliesAdminOnly (snd route)) main_routes_part_000) = 11"
  by (simp add: main_routes_def main_routes_part_000_def)

lemma roleAfterAuth_refuses:
  "\<not> roleAfterAuth False (AdminOnly h)"
  "\<not> roleAfterAuth False (CORS (AdminOnly (Authenticate h)))"
  by simp_all

text \<open>
  Claim C6. For every request that lacks the session cookie, and for every request
  whose session cookie the Session Store Adapter reports as not found or expired, the
  Authentication Middleware responds with HTTP 401 and does not invoke the wrapped
  handler, whatever that handler is.
\<close>
theorem AuthenticationMiddleware_rejects:
  "Request_Cookie (request r) sessionCookie = Inl e
     \<or> (Request_Cookie (request r) sessionCookie = Inr c \<and> Lookup (Value c) = None) \<Longrightarrow>
   AuthenticationMiddleware sessionCookie Lookup next r = Inr (terminate 401)
   \<and> StatusCode (response (terminate 401)) = 401 \<and> invoked (terminate 401) = []"
  by (auto simp add: AuthenticationMiddleware_def terminate_def)

theorem AuthenticationMiddleware_rejects_witness:
  "Request_Cookie (request \<lparr>request = \<lparr>Form = [], Cookies = [(''lang'', ''kk'')]\<rparr>, attached = None\<rparr>)
       ''session_token'' = Inl ErrNoCookie
   \<and> AuthenticationMiddleware ''session_token''
       (\<lambda>s. if s = ''s1'' then Some \<lparr>userID = 7, role = farmer\<rparr> else None)
       (domainHandler (\<lambda>r. \<lparr>StatusCode = 200, Body = ''dashboard''\<rparr>))
       \<lparr>request = \<lparr>Form = [], Cookies = [(''lang'', ''kk'')]\<rparr>, attached = None\<rparr>
     = Inr \<lparr>response = \<lparr>StatusCode = 401, Body = ''''\<rparr>, invoked = []\<rparr>
   \<and> (if ''s9'' = ''s1'' then Some \<lparr>userID = 7, role = farmer\<rparr> else None) = None
   \<and> AuthenticationMiddleware ''session_token''
       (\<lambda>s. if s = ''s1'' then Some \<lparr>userID = 7, role = farmer\<rparr> else None)
       (domainHandler (\<lambda>r. \<lparr>StatusCode = 200, Body = ''dashboard''\<rparr>))
       \<lparr>request = \<lparr>Form = [], Cookies = [(''session_token'', ''s9'')]\<rparr>, attached = None\<rparr>
     = Inr \<lparr>response = \<lparr>StatusCode = 401, Body = ''''\<rparr>, invoked = []\<rparr>"
proof -
  let ?Lookup = "\<lambda>s. if s = ''s1'' then Some \<lparr>userID = 7, role = farmer\<rparr> else None"
  let ?next = "domainHandler (\<lambda>r. \<lparr>StatusCode = 200, Body = ''dashboard''\<rparr>)"
  let ?r1 = "\<lparr>request = \<lparr>Form = [], Cookies = [(''lang'', ''kk'')]\<rparr>, attached = None\<rparr>"
  let ?r2 = "\<lparr>request = \<lparr>Form = [], Cookies = [(''session_token'', ''s9'')]\<rparr>, attached = None\<rparr>"
  let ?c = "\<lparr>Name = ''session_token'', Value = ''s9'', Path = '''', Expires = None,
      MaxAge = 0, HttpOnly = False, Secure = False, SameSite = SameSiteDefaultMode\<rparr>"
  have a: "Request_Cookie (request ?r1) ''session_token'' = Inl ErrNoCookie"
    by (simp add: Request_Cookie_def)
  have b: "Request_Cookie (request ?r2) ''session_token'' = Inr ?c \<and> ?Lookup (Value ?c) = None"
    by (simp add: Request_Cookie_def)
  from AuthenticationMiddleware_rejects [of ?r1 "''session_token''" ErrNoCookie ?c ?Lookup ?next] a
  have "AuthenticationMiddleware ''session_token'' ?Lookup ?next ?r1 = Inr (terminate 401)"
    by blast
  moreover
  from AuthenticationMiddleware_rejects [of ?r2 "''session_token''" ErrNoCookie ?c ?Lookup ?next] b
  have "AuthenticationMiddleware ''session_token'' ?Lookup ?next ?r2 = Inr (terminate 401)"
    by blast
  ultimately show ?thesis using a by (simp add: terminate_def)
qed

text \<open>
  Claim C7. For every request with a valid session (the lookup of the Session Store
  Adapter succeeds), the Authentication Middleware does exactly what the wrapped
  handler does on the request with the resolved identity attached: a domain handler
  is invoked exactly once, with that request, and answers for it.
\<close>
theorem AuthenticationMiddleware_invokes:
  "Request_Cookie (request r) sessionCookie = Inr c \<Longrightarrow> Lookup (Value c) = Some identity \<Longrightarrow>
   AuthenticationMiddleware sessionCookie Lookup next r = next (r\<lparr>attached := Some identity\<rparr>)
   \<and> AuthenticationMiddleware sessionCookie Lookup (domainHandler f) r
       = Inr \<lparr>response = f (r\<lparr>attached := Some identity\<rparr>),
              invoked = [r\<lparr>attached := Some identity\<rparr>]\<rparr>
   \<and> attached (r\<lparr>attached := Some identity\<rparr>) = Some identity
   \<and> request (r\<lparr>attached := Some identity\<rparr>) = request r"
  by (simp add: AuthenticationMiddleware_def domainHandler_def)

theorem AuthenticationMiddleware_invokes_witness:
  "Request_Cookie (request \<lparr>request = \<lparr>Form = [], Cookies = [(''session_token'', ''s1'')]\<rparr>,
         attached = None\<rparr>) ''session_token''
     = Inr \<lparr>Name = ''session_token'', Value = ''s1'', Path = '''', Expires = None,
            MaxAge = 0, HttpOnly = False, Secure = False, SameSite = SameSiteDefaultMode\<rparr>
   \<and> AuthenticationMiddleware ''session_token''
       (\<lambda>s. if s = ''s1'' then Some \<lparr>userID = 7, role = farmer\<rparr> else None)
       (domainHandler (\<lambda>r. \<lparr>StatusCode = 200,
            Body = (case attached r of None \<Rightarrow> ''nobody''
              | Some i \<Rightarrow> if role i = farmer then ''farmer'' else ''other'')\<rparr>))
       \<lparr>request = \<lparr>Form = [], Cookies = [(''session_token'', ''s1'')]\<rparr>, attached = None\<rparr>
     = Inr \<lparr>response = \<lparr>StatusCode = 200, Body = ''farmer''\<rparr>,
            invoked = [\<lparr>request = \<lparr>Form = [], Cookies = [(''session_token'', ''s1'')]\<rparr>,
                        attached = Some \<lparr>userID = 7, role = farmer\<rparr>\<rparr>]\<rparr>"
proof -
  let ?Lookup = "\<lambda>s. if s = ''s1'' then Some \<lparr>userID = 7, role = farmer\<rparr> else None"
  let ?f = "\<lambda>r. \<lparr>StatusCode = 200,
            Body = (case attached r of None \<Rightarrow> ''nobody''
              | Some i \<Rightarrow> if role i = farmer then ''farmer'' else ''other'')\<rparr>"
  let ?r = "\<lparr>request = \<lparr>Form = [], Cookies = [(''session_token'', ''s1'')]\<rparr>, attached = None\<rparr>"
  let ?c = "\<lparr>Name = ''session_token'', Value = ''s1'', Path = '''', Expires = None,
      MaxAge = 0, HttpOnly = False, Secure = False, SameSite = SameSiteDefaultMode\<rparr>"
  have a: "Request_Cookie (request ?r) ''session_token'' = Inr ?c"
    by (simp add: Request_Cookie_def)
  have b: "?Lookup (Value ?c) = Some \<lparr>userID = 7, role = farmer\<rparr>" by simp
  from AuthenticationMiddleware_invokes [of ?r "''session_token''" ?c ?Lookup, OF a b,
      of "domainHandler ?f" ?f]
  have "AuthenticationMiddleware ''session_token'' ?Lookup (domainHandler ?f) ?r
       = Inr \<lparr>response = ?f (?r\<lparr>attached := Some \<lparr>userID = 7, role = farmer\<rparr>\<rparr>),
              invoked = [?r\<lparr>attached := Some \<lparr>userID = 7, role = farmer\<rparr>\<rparr>]\<rparr>"
    by (rule conjunct2 [THEN conjunct1])
  with a show ?thesis by simp
qed

text \<open>
  Claim C8. For every request whose attached identity has a role outside the permitted
  set of the route, the Role Authorization Middleware responds with HTTP 403 and does
  not invoke the wrapped handler, whatever the session of the request is. A response
  of the core is a 401 of its own (authentication), a 403 of its own (role), or
  entirely the outcome of the wrapped handler.
\<close>
theorem RoleAuthorizationMiddleware_forbids:
  "(attached r = Some identity \<and> role identity \<notin> permitted \<longrightarrow>
      RoleAuthorizationMiddleware permitted next r = Inr (terminate 403)
      \<and> StatusCode (response (terminate 403)) = 403 \<and> invoked (terminate 403) = [])
   \<and> (RoleAuthorizationMiddleware permitted next r = Inr out \<longrightarrow>
      out = terminate 403 \<or> next r = Inr out)
   \<and> (AuthenticationMiddleware sessionCookie Lookup next r = Inr out \<longrightarrow>
      out = terminate 401 \<or> (\<exists>identity. next (r\<lparr>attached := Some identity\<rparr>) = Inr out))"
  by (auto simp add: RoleAuthorizationMiddleware_def AuthenticationMiddleware_def terminate_def
      split: option.splits sum.splits if_splits)

theorem RoleAuthorizationMiddleware_forbids_witness:
  "attached \<lparr>request = \<lparr>Form = [], Cookies = []\<rparr>,
       attached = Some \<lparr>userID = 7, role = farmer\<rparr>\<rparr> = Some \<lparr>userID = 7, role = farmer\<rparr>
   \<and> role \<lparr>userID = 7, role = farmer\<rparr> \<notin> {admin}
   \<and> RoleAuthorizationMiddleware {admin}
         (domainHandler (\<lambda>r. \<lparr>StatusCode = 200, Body = ''users''\<rparr>))
         \<lparr>request = \<lparr>Form = [], Cookies = []\<rparr>, attached = Some \<lparr>userID = 7, role = farmer\<rparr>\<rparr>
       = Inr \<lparr>response = \<lparr>StatusCode = 403, Body = ''''\<rparr>, invoked = []\<rparr>
   \<and> RoleAuthorizationMiddleware {admin}
         (domainHandler (\<lambda>r. \<lparr>StatusCode = 200, Body = ''users''\<rparr>))
         \<lparr>request = \<lparr>Form = [], Cookies = []\<rparr>, attached = Some \<lparr>userID = 1, role = admin\<rparr>\<rparr>
       = Inr \<lparr>response = \<lparr>StatusCode = 200, Body = ''users''\<rparr>,
              invoked = [\<lparr>request = \<lparr>Form = [], Cookies = []\<rparr>,
                          attached = Some \<lparr>userID = 1, role = admin\<rparr>\<rparr>]\<rparr>
   \<and> domainHandler (\<lambda>r. \<lparr>StatusCode = 200, Body = ''users''\<rparr>)
         \<lparr>request = \<lparr>Form = [], Cookies = []\<rparr>, attached = Some \<lparr>userID = 1, role = admin\<rparr>\<rparr>
       = Inr \<lparr>response = \<lparr>StatusCode = 200, Body = ''users''\<rparr>,
              invoked = [\<lparr>request = \<lparr>Form = [], Cookies = []\<rparr>,
                          attached = Some \<lparr>userID = 1, role = admin\<rparr>\<rparr>]\<rparr>
   \<and> AuthenticationMiddleware ''session_token'' (\<lambda>s. None)
         (domainHandler (\<lambda>r. \<lparr>StatusCode = 200, Body = ''users''\<rparr>))
         \<lparr>request = \<lparr>Form = [], Cookies = []\<rparr>, attached = None\<rparr>
       = Inr (terminate 401)"
proof -
  let ?next = "domainHandler (\<lambda>r. \<lparr>StatusCode = 200, Body = ''users''\<rparr>)"
  let ?rF = "\<lparr>request = \<lparr>Form = [], Cookies = []\<rparr>,
       attached = Some \<lparr>userID = 7, role = farmer\<rparr>\<rparr>"
  let ?rA = "\<lparr>request = \<lparr>Form = [], Cookies = []\<rparr>,
       attached = Some \<lparr>userID = 1, role = admin\<rparr>\<rparr>"
  let ?r0 = "\<lparr>request = \<lparr>Form = [], Cookies = []\<rparr>, attached = None\<rparr>"
  let ?ok = "\<lparr>response = \<lparr>StatusCode = 200, Body = ''users''\<rparr>, invoked = [?rA]\<rparr>"
  have hyp1: "attached ?rF = Some \<lparr>userID = 7, role = farmer\<rparr>
      \<and> role \<lparr>userID = 7, role = farmer\<rparr> \<notin> {admin}"
    by simp
  have hyp2: "RoleAuthorizationMiddleware {admin} ?next ?rA = Inr ?ok"
    by (simp add: RoleAuthorizationMiddleware_def domainHandler_def)
  have hyp3: "AuthenticationMiddleware ''session_token'' (\<lambda>s. None) ?next ?r0 = Inr (terminate 401)"
    by (simp add: AuthenticationMiddleware_def Request_Cookie_def)
  from RoleAuthorizationMiddleware_forbids
    [of ?rF "\<lparr>userID = 7, role = farmer\<rparr>" "{admin}" ?next "terminate 403" "''session_token''"
      "\<lambda>s. None"] hyp1
  have c1: "RoleAuthorizationMiddleware {admin} ?next ?rF = Inr (terminate 403)"
    by blast
  from RoleAuthorizationMiddleware_forbids
    [of ?rA "\<lparr>userID = 1, role = admin\<rparr>" "{admin}" ?next ?ok "''session_token''" "\<lambda>s. None"] hyp2
  have "?ok = terminate 403 \<or> ?next ?rA = Inr ?ok"
    by blast
  then have c2: "?next ?rA = Inr ?ok"
    by (simp add: terminate_def)
  from RoleAuthorizationMiddleware_forbids
    [of ?r0 "\<lparr>userID = 1, role = admin\<rparr>" "{admin}" ?next "terminate 401" "''session_token''"
      "\<lambda>s. None"] hyp3
  have "terminate 401 = terminate 401
      \<or> (\<exists>identity. ?next (?r0\<lparr>attached := Some identity\<rparr>) = Inr (terminate 401))"
    by blast
  with hyp1 hyp2 hyp3 c1 c2 show ?thesis by (simp add: terminate_def)
qed

end
